theory Spec2Isabelle
  imports Main
begin

section \<open>Strings\<close>

text \<open>
  A Python \<open>str\<close> is modelled as a \<open>string\<close> whose characters are the code points
  below 256. The helpers below are the library calls of \<open>src/main.py\<close>, each restricted
  to that range.
\<close>

definition py_isspace :: "char \<Rightarrow> bool" where
  \<comment> \<open>\<open>str.isspace\<close> on one character: TAB, LF, VT, FF, CR, FS, GS, RS, US, SPACE, NEL, NBSP.\<close>
  "py_isspace c \<longleftrightarrow>
     c \<in> set [CHR 0x09, CHR 0x0A, CHR 0x0B, CHR 0x0C, CHR 0x0D, CHR 0x1C, CHR 0x1D,
               CHR 0x1E, CHR 0x1F, CHR 0x20, CHR 0x85, CHR 0xA0]"

definition strip :: "string \<Rightarrow> string" where
  \<comment> \<open>\<open>s.strip()\<close>: white space removed at both ends.\<close>
  "strip s = rev (dropWhile py_isspace (rev (dropWhile py_isspace s)))"

definition ascii_digit :: "char \<Rightarrow> bool" where
  \<comment> \<open>the class \<open>0-9\<close> of a regular expression\<close>
  "ascii_digit c \<longleftrightarrow> c \<in> set ''0123456789''"

definition re_digit :: "char \<Rightarrow> bool" where
  \<comment> \<open>\<open>\d\<close> of a \<open>str\<close> pattern: the decimal digits (category Nd), below 256 only \<open>0-9\<close>\<close>
  "re_digit c \<longleftrightarrow> c \<in> set ''0123456789''"

definition py_isdigit_char :: "char \<Rightarrow> bool" where
  \<comment> \<open>a character with the digit property: \<open>0-9\<close> and the superscripts two, three, one\<close>
  "py_isdigit_char c \<longleftrightarrow> c \<in> set ''0123456789'' \<or> c \<in> set [CHR 0xB2, CHR 0xB3, CHR 0xB9]"

definition isdigit :: "string \<Rightarrow> bool" where
  \<comment> \<open>\<open>s.isdigit()\<close>: not empty, and every character is a digit\<close>
  "isdigit s \<longleftrightarrow> s \<noteq> [] \<and> list_all py_isdigit_char s"

definition startswith :: "string \<Rightarrow> string \<Rightarrow> bool" where
  "startswith s p \<longleftrightarrow> take (length p) s = p"

section \<open>Input normalizer\<close>

definition in_MLB09 :: "char \<Rightarrow> bool" where
  \<comment> \<open>membership in the class \<open>MLB0-9\<close>; the pattern \<open>[^MLB0-9]\<close> is its complement\<close>
  "in_MLB09 c \<longleftrightarrow> c \<in> set ''MLB'' \<or> ascii_digit c"

definition match_MLB_digits :: "string \<Rightarrow> bool" where
  \<comment> \<open>\<open>re.match(r"^MLB\d+$", s)\<close>: the prefix, the longest run of digits (one at least),
      then the end of the string, which \<open>$\<close> also finds before one final newline\<close>
  "match_MLB_digits s \<longleftrightarrow>
     (let r = drop 3 s; ds = takeWhile re_digit r; rest = dropWhile re_digit r
      in take 3 s = ''MLB'' \<and> ds \<noteq> [] \<and> (rest = [] \<or> rest = [CHR 0x0A]))"

definition normalize_ad_id :: "string \<Rightarrow> string option" where
  "normalize_ad_id ad_id =
     (let cleaned_id = filter in_MLB09 (strip ad_id);
          cleaned_id = (if \<not> startswith cleaned_id ''MLB'' then ''MLB'' @ cleaned_id
                        else cleaned_id)
      in if match_MLB_digits cleaned_id then Some cleaned_id else None)"

definition normalize_zip_code :: "string \<Rightarrow> string option" where
  "normalize_zip_code zip_code =
     (let cleaned_zip = filter ascii_digit (strip zip_code)
      in if length cleaned_zip = 8 \<and> isdigit cleaned_zip then Some cleaned_zip else None)"

section \<open>Values of the interpreter\<close>

text \<open>
  What \<open>response.json()\<close> returns: \<open>None\<close>, a \<open>bool\<close>, an \<open>int\<close>, a \<open>float\<close>,
  a \<open>str\<close>, a \<open>list\<close> or a \<open>dict\<close>. The floats are a type parameter; a \<open>dict\<close> is the
  list of its items (its keys are strings and distinct) and is read with \<open>map_of\<close>.
\<close>

datatype 'f json =
    JNull
  | JBool bool
  | JInt int
  | JFloat 'f
  | JString string
  | JArray "'f json list"
  | JObject "(string \<times> 'f json) list"

text \<open>
  The exceptions the fetcher tells apart, in the order of its \<open>except\<close> clauses, each with
  the text of \<open>str(error)\<close>: a \<open>ClientConnectionError\<close>, a \<open>ClientResponseError\<close> (with its
  \<open>status\<close>), any other \<open>ClientError\<close>, a \<open>ValueError\<close>, and any other \<open>Exception\<close>
  (with the name of its class). Signals that are no \<open>Exception\<close> (a cancelled task, an
  interrupt from the keyboard) end the program and are not modelled.
\<close>

datatype py_exception =
    ClientConnectionError string
  | ClientResponseError int string
  | ClientError string
  | ValueError string
  | OtherException string string

fun digit_chars :: "nat \<Rightarrow> string" where
  "digit_chars n = (if n < 10 then [''0123456789'' ! n]
                    else digit_chars (n div 10) @ [''0123456789'' ! (n mod 10)])"

definition py_str_int :: "int \<Rightarrow> string" where
  \<comment> \<open>\<open>str(n)\<close> of an \<open>int\<close>\<close>
  "py_str_int n = (if n < 0 then ''-'' @ digit_chars (nat (- n)) else digit_chars (nat n))"

definition quoted :: "string \<Rightarrow> string" where
  "quoted s = [CHR 0x27] @ s @ [CHR 0x27]"

fun type_name :: "'f json \<Rightarrow> string" where
  "type_name JNull = ''NoneType''"
| "type_name (JBool b) = ''bool''"
| "type_name (JInt n) = ''int''"
| "type_name (JFloat x) = ''float''"
| "type_name (JString s) = ''str''"
| "type_name (JArray xs) = ''list''"
| "type_name (JObject kvs) = ''dict''"

definition type_error :: "string \<Rightarrow> py_exception + 'a" where
  \<comment> \<open>raising a \<open>TypeError\<close>; the texts below are CPython's (3.12)\<close>
  "type_error txt = Inl (OtherException ''TypeError'' txt)"

definition then_do :: "py_exception + 'a \<Rightarrow> ('a \<Rightarrow> py_exception + 'b) \<Rightarrow> py_exception + 'b" where
  \<comment> \<open>sequencing: an exception raised by the first step skips the rest\<close>
  "then_do m f = (case m of Inl e \<Rightarrow> Inl e | Inr v \<Rightarrow> f v)"

definition is_substring :: "string \<Rightarrow> string \<Rightarrow> bool" where
  "is_substring k s \<longleftrightarrow> list_ex (\<lambda>i. take (length k) (drop i s) = k) [0..<Suc (length s)]"

fun py_contains :: "string \<Rightarrow> 'f json \<Rightarrow> py_exception + bool" where
  \<comment> \<open>\<open>k in data\<close> for a string \<open>k\<close>\<close>
  "py_contains k (JObject kvs) = Inr (k \<in> set (map fst kvs))"
| "py_contains k (JArray xs) = Inr (JString k \<in> set xs)"
| "py_contains k (JString s) = Inr (is_substring k s)"
| "py_contains k v = type_error (''argument of type '' @ quoted (type_name v) @ '' is not iterable'')"

fun py_getitem_str :: "'f json \<Rightarrow> string \<Rightarrow> py_exception + 'f json" where
  \<comment> \<open>\<open>data[k]\<close> for a string \<open>k\<close>\<close>
  "py_getitem_str (JObject kvs) k =
     (case map_of kvs k of Some v \<Rightarrow> Inr v | None \<Rightarrow> Inl (OtherException ''KeyError'' (quoted k)))"
| "py_getitem_str (JArray xs) k = type_error ''list indices must be integers or slices, not str''"
| "py_getitem_str (JString s) k = type_error (''string indices must be integers, not '' @ quoted ''str'')"
| "py_getitem_str v k = type_error (quoted (type_name v) @ '' object is not subscriptable'')"

fun py_len :: "'f json \<Rightarrow> py_exception + nat" where
  \<comment> \<open>\<open>len(v)\<close>\<close>
  "py_len (JArray xs) = Inr (length xs)"
| "py_len (JString s) = Inr (length s)"
| "py_len (JObject kvs) = Inr (length kvs)"
| "py_len v = type_error (''object of type '' @ quoted (type_name v) @ '' has no len()'')"

fun py_getitem_nat :: "'f json \<Rightarrow> nat \<Rightarrow> py_exception + 'f json" where
  \<comment> \<open>\<open>v[i]\<close> for an index \<open>i \<ge> 0\<close>; an \<open>int\<close> is never a key of a \<open>dict\<close> read from JSON\<close>
  "py_getitem_nat (JArray xs) i =
     (if i < length xs then Inr (xs ! i) else Inl (OtherException ''IndexError'' ''list index out of range''))"
| "py_getitem_nat (JString s) i =
     (if i < length s then Inr (JString [s ! i])
      else Inl (OtherException ''IndexError'' ''string index out of range''))"
| "py_getitem_nat (JObject kvs) i = Inl (OtherException ''KeyError'' (py_str_int (int i)))"
| "py_getitem_nat v i = type_error (quoted (type_name v) @ '' object is not subscriptable'')"

section \<open>Shipping fetcher\<close>

text \<open>
  The result of \<open>fetch_shipping_cost\<close> is the tuple \<open>(ad_id, cost, error)\<close> of the source.
  Two things of the run time are parameters: \<open>float_of\<close>, the conversion \<open>float(v)\<close>
  (a cost, or the exception it raises), and the \<open>session\<close>, which gives for a URL what
  \<open>session.get\<close>, \<open>raise_for_status\<close> and \<open>response.json()\<close> come to: an exception
  raised, or the parsed body.
\<close>

type_synonym 'c fetch_result = "string \<times> 'c option \<times> string option"

datatype 'f http_result = Raised py_exception | Body "'f json"

type_synonym 'f session = "string \<Rightarrow> 'f http_result"

definition shipping_url :: "string \<Rightarrow> string \<Rightarrow> string" where
  "shipping_url ad_id zip_code =
     ''https://api.mercadolibre.com/items/'' @ ad_id @ ''/shipping_options?zip_code='' @ zip_code"

definition read_options :: "('f json \<Rightarrow> py_exception + 'c) \<Rightarrow> string \<Rightarrow> 'f json
    \<Rightarrow> py_exception + 'c fetch_result" where
  \<comment> \<open>lines 29 to 31: the statements of the \<open>try\<close> block after \<open>data\<close> is bound\<close>
  "read_options float_of ad_id data =
     then_do (py_contains ''options'' data) (\<lambda>has_options.
       if \<not> has_options then Inr (ad_id, None, Some ''No shipping options available'')
       else
         then_do (py_getitem_str data ''options'') (\<lambda>options.
         then_do (py_len options) (\<lambda>n.
           if n > 2 then
             then_do (py_getitem_str data ''options'') (\<lambda>options.
             then_do (py_getitem_nat options 2) (\<lambda>option.
             then_do (py_getitem_str option ''list_cost'') (\<lambda>list_cost.
             then_do (float_of list_cost) (\<lambda>cost.
               Inr (ad_id, Some cost, None)))))
           else Inr (ad_id, None, Some ''No shipping options available''))))"

fun on_exception :: "string \<Rightarrow> py_exception \<Rightarrow> 'c fetch_result" where
  \<comment> \<open>lines 32 to 48: the \<open>except\<close> clauses, in their order\<close>
  "on_exception ad_id (ClientConnectionError txt) =
     (ad_id, None, Some ''Could not connect to the server. Please check your internet connection and try again.'')"
| "on_exception ad_id (ClientResponseError status txt) =
     (if status = 500 then
        (ad_id, None, Some ''Server error (500). The Mercado Livre API is experiencing issues. Please try again later.'')
      else if status = 404 then
        (ad_id, None, Some ''Item not found (404). Verify the ad ID and try again.'')
      else if status = 429 then
        (ad_id, None, Some ''Too many requests (429). Please wait a few minutes and try again.'')
      else
        (ad_id, None, Some (''Unexpected HTTP error ('' @ py_str_int status
           @ ''). Contact the developer if this persists.'')))"
| "on_exception ad_id (ClientError txt) =
     (ad_id, None, Some (''Client error: '' @ txt @ ''. Check your connection or contact the developer.''))"
| "on_exception ad_id (ValueError txt) =
     (ad_id, None, Some (''Invalid response: '' @ txt
        @ ''. The API returned unexpected data. Try again or contact the developer.''))"
| "on_exception ad_id (OtherException cls txt) =
     (ad_id, None, Some (''Unexpected error: '' @ txt
        @ ''. Please contact the developer with this error message.''))"

definition fetch_shipping_cost :: "('f json \<Rightarrow> py_exception + 'c) \<Rightarrow> 'f session \<Rightarrow> string \<Rightarrow> string
    \<Rightarrow> 'c fetch_result" where
  "fetch_shipping_cost float_of session ad_id zip_code =
     (let url = shipping_url ad_id zip_code;
          attempt = (case session url of
                       Raised error \<Rightarrow> Inl error
                     | Body data \<Rightarrow> read_options float_of ad_id data)
      in case attempt of Inr outcome \<Rightarrow> outcome | Inl error \<Rightarrow> on_exception ad_id error)"

section \<open>Batch coordinator\<close>

fun re_split :: "string \<Rightarrow> string list" where
  \<comment> \<open>\<open>re.split(r"[,\n]", s)\<close>: the pieces between the commas and newlines, empty ones too\<close>
  "re_split [] = [[]]"
| "re_split (c # cs) =
     (if c = CHR '','' \<or> c = CHR 0x0A then [] # re_split cs
      else (case re_split cs of [] \<Rightarrow> [[c]] | piece # pieces \<Rightarrow> (c # piece) # pieces))"

fun fromkeys :: "'a list \<Rightarrow> 'a list \<Rightarrow> 'a list" where
  \<comment> \<open>the keys of a \<open>dict\<close> in insertion order, while the keys \<open>xs\<close> are stored one by one\<close>
  "fromkeys seen [] = seen"
| "fromkeys seen (x # xs) = (if x \<in> set seen then fromkeys seen xs else fromkeys (seen @ [x]) xs)"

definition dict_fromkeys :: "'a list \<Rightarrow> 'a list" where
  \<comment> \<open>\<open>list(dict.fromkeys(xs))\<close>\<close>
  "dict_fromkeys xs = fromkeys [] xs"

definition truthy :: "string option \<Rightarrow> bool" where
  \<comment> \<open>\<open>if norm_id\<close>: neither \<open>None\<close> nor the empty string\<close>
  "truthy norm_id \<longleftrightarrow> (case norm_id of None \<Rightarrow> False | Some s \<Rightarrow> s \<noteq> [])"

definition id_list_of :: "string \<Rightarrow> string list" where
  \<comment> \<open>line 52\<close>
  "id_list_of ad_ids = dict_fromkeys [strip i. i \<leftarrow> re_split ad_ids, strip i \<noteq> []]"

definition normalized_ids_of :: "string list \<Rightarrow> (string \<times> string option) list" where
  \<comment> \<open>line 56\<close>
  "normalized_ids_of id_list = [(raw_id, normalize_ad_id raw_id). raw_id \<leftarrow> id_list]"

definition valid_ids_of :: "(string \<times> string option) list \<Rightarrow> (string \<times> string) list" where
  \<comment> \<open>line 57; the second component is kept as the string it is known to be\<close>
  "valid_ids_of normalized_ids =
     List.map_filter (\<lambda>(raw_id, norm_id).
        case norm_id of None \<Rightarrow> None
        | Some n \<Rightarrow> if truthy norm_id then Some (raw_id, n) else None) normalized_ids"

definition invalid_ids_of :: "(string \<times> string option) list \<Rightarrow> (string \<times> string option) list" where
  \<comment> \<open>line 58\<close>
  "invalid_ids_of normalized_ids =
     [(raw_id, None). (raw_id, norm_id) \<leftarrow> normalized_ids, \<not> truthy norm_id]"

text \<open>
  The window is modelled by what is done to it, in order: a line inserted at the end of
  the result text, an error or a warning dialog (title and message), a scroll to the end.
  \<open>format_2f\<close>, the rendering \<open>{cost:.2f}\<close>, is a parameter like \<open>float_of\<close>.
\<close>

datatype gui_event =
    Insert string
  | ShowError string "string option"
  | ShowWarning string string
  | See

definition result_dict_of :: "'c fetch_result list \<Rightarrow> (string \<rightharpoonup> 'c option \<times> string option)" where
  \<comment> \<open>line 64: a later result for the same \<open>ad_id\<close> replaces an earlier one\<close>
  "result_dict_of results = fold (\<lambda>(ad_id, cost, error) d. d(ad_id \<mapsto> (cost, error))) results Map.empty"

definition show_entry :: "('c \<Rightarrow> string) \<Rightarrow> (string \<rightharpoonup> 'c option \<times> string option)
    \<Rightarrow> string \<times> string option \<Rightarrow> gui_event list" where
  \<comment> \<open>lines 67 to 77: the body of the loop, for one pair of \<open>normalized_ids\<close>\<close>
  "show_entry format_2f result_dict entry =
     (case entry of (raw_id, norm_id) \<Rightarrow>
        (if truthy norm_id then
           (case norm_id of None \<Rightarrow> []
            | Some n \<Rightarrow>
               (case (case result_dict n of Some found \<Rightarrow> found | None \<Rightarrow> (None, Some ''Unknown error'')) of
                  (cost, error) \<Rightarrow>
                    (case cost of
                       Some c \<Rightarrow> [Insert (n @ '': R$ '' @ format_2f c @ [CHR 0x0A])]
                     | None \<Rightarrow> [Insert (n @ '': Failed to retrieve cost'' @ [CHR 0x0A]),
                                 ShowError ''Error'' error])))
         else
           [Insert (''Skipping invalid ad ID: '' @ raw_id @ [CHR 0x0A]),
            ShowWarning ''Warning''
              (''Invalid ad ID: '' @ raw_id @ ''. Must be in the format MLB followed by numbers.'')])
        @ [See])"

text \<open>
  The tasks run concurrently, and \<open>asyncio.gather\<close> returns their results in the order
  of the tasks. \<open>net i\<close> is the session as task \<open>i\<close> finds it: whatever the order in which
  the requests are answered, and whatever that order does to the answers, a run gives
  each task one outcome, so a statement for every \<open>net\<close> is one for every such order.
  The record keeps what the function does: the arguments \<open>(ad_id, zip_code)\<close> of the
  fetches it starts, the results gathered, and the events at the window.
\<close>

record 'c batch =
  fetch_calls :: "(string \<times> string) list"
  results :: "'c fetch_result list"
  events :: "gui_event list"

definition process_ad_ids :: "('f json \<Rightarrow> py_exception + 'c) \<Rightarrow> ('c \<Rightarrow> string) \<Rightarrow> (nat \<Rightarrow> 'f session)
    \<Rightarrow> string \<Rightarrow> string \<Rightarrow> 'c batch" where
  "process_ad_ids float_of format_2f net ad_ids zip_code =
     (let id_list = id_list_of ad_ids in
      if id_list = [] then \<lparr>fetch_calls = [], results = [], events = []\<rparr>
      else
        let normalized_ids = normalized_ids_of id_list;
            valid_ids = valid_ids_of normalized_ids;
            invalid_ids = invalid_ids_of normalized_ids;
            tasks = [(norm_id, zip_code). (raw_id, norm_id) \<leftarrow> valid_ids];
            gathered = [fetch_shipping_cost float_of (net i) ad_id z. (i, (ad_id, z)) \<leftarrow> enumerate 0 tasks];
            result_dict = result_dict_of gathered
        in \<lparr>fetch_calls = tasks, results = gathered,
            events = concat (map (show_entry format_2f result_dict) normalized_ids)\<rparr>)"

section \<open>Run-time parameters of the examples\<close>

definition answering :: "'f http_result \<Rightarrow> 'f session" where
  \<comment> \<open>a session whose every request has the outcome \<open>r\<close>\<close>
  "answering r url = r"

definition net_answering :: "'f http_result \<Rightarrow> nat \<Rightarrow> 'f session" where
  \<comment> \<open>every task finds the outcome \<open>r\<close>\<close>
  "net_answering r i = answering r"

fun float_of_int :: "int json \<Rightarrow> py_exception + int" where
  \<comment> \<open>an instance of \<open>float\<close> for the closed examples, which apply it to an \<open>int\<close> only (small
      enough to convert exactly). The \<open>TypeError\<close> is \<open>float\<close>'s own on \<open>None\<close>, a list and a
      dict; strings, floats and booleans do not occur in the examples.\<close>
  "float_of_int (JInt n) = Inr n"
| "float_of_int v = type_error (''float() argument must be a string or a real number, not ''
     @ quoted (type_name v))"

definition format_2f_int :: "int \<Rightarrow> string" where
  \<comment> \<open>\<open>{cost:.2f}\<close> of a whole number\<close>
  "format_2f_int n = py_str_int n @ ''.00''"

section \<open>Notions of the specification\<close>

definition failure_for :: "string \<Rightarrow> 'c fetch_result \<Rightarrow> bool" where
  \<comment> \<open>a \<open>Failure\<close> for \<open>ad_id\<close>: no cost, and a reason that is not empty\<close>
  "failure_for ad_id r \<longleftrightarrow>
     (case r of (i, cost, error) \<Rightarrow>
        i = ad_id \<and> cost = None \<and> (case error of None \<Rightarrow> False | Some m \<Rightarrow> m \<noteq> []))"

definition success_for :: "string \<Rightarrow> 'c fetch_result \<Rightarrow> bool" where
  \<comment> \<open>a \<open>Success\<close> for \<open>ad_id\<close>: a cost, and no reason\<close>
  "success_for ad_id r \<longleftrightarrow> (case r of (i, cost, error) \<Rightarrow> i = ad_id \<and> cost \<noteq> None \<and> error = None)"

definition raw_tokens :: "string \<Rightarrow> string list" where
  \<comment> \<open>the blob split on commas and newlines, each token trimmed, the empty ones dropped\<close>
  "raw_tokens blob = filter (\<lambda>t. t \<noteq> []) (map strip (re_split blob))"

definition first_index :: "'a list \<Rightarrow> 'a \<Rightarrow> nat" where
  \<comment> \<open>the position of the first occurrence of \<open>x\<close> in \<open>xs\<close>\<close>
  "first_index xs x = length (takeWhile (\<lambda>y. y \<noteq> x) xs)"

definition first_occurrence_order :: "'a list \<Rightarrow> 'a list \<Rightarrow> bool" where
  \<comment> \<open>\<open>ys\<close> lists the distinct elements of \<open>xs\<close>, each once, by first occurrence in \<open>xs\<close>\<close>
  "first_occurrence_order xs ys \<longleftrightarrow>
     distinct ys \<and> set ys = set xs \<and> sorted_wrt (\<lambda>a b. first_index xs a < first_index xs b) ys"

fun inserted_lines :: "gui_event list \<Rightarrow> string list" where
  \<comment> \<open>the lines of the result text, in the order of their insertion\<close>
  "inserted_lines [] = []"
| "inserted_lines (Insert line # es) = line # inserted_lines es"
| "inserted_lines (e # es) = inserted_lines es"

definition invalid_marker :: "string \<Rightarrow> gui_event list" where
  \<comment> \<open>what the window shows for a token that is no ad ID\<close>
  "invalid_marker raw_id =
     [Insert (''Skipping invalid ad ID: '' @ raw_id @ [CHR 0x0A]),
      ShowWarning ''Warning''
        (''Invalid ad ID: '' @ raw_id @ ''. Must be in the format MLB followed by numbers.''),
      See]"

definition entry_for :: "string \<Rightarrow> string \<Rightarrow> bool" where
  \<comment> \<open>\<open>line\<close> is the entry of the token \<open>raw_id\<close>: the line of its canonical identifier,
      or the line that skips it\<close>
  "entry_for raw_id line \<longleftrightarrow>
     (case normalize_ad_id raw_id of
        None \<Rightarrow> line = ''Skipping invalid ad ID: '' @ raw_id @ [CHR 0x0A]
      | Some n \<Rightarrow> startswith line (n @ '': ''))"

section \<open>Properties of the input normalizer\<close>

lemma dropWhile_none: "\<forall>c\<in>set s. \<not> P c \<Longrightarrow> dropWhile P s = s"
  by (cases s) auto

lemma strip_no_space: "\<forall>c\<in>set s. \<not> py_isspace c \<Longrightarrow> strip s = s"
  by (simp add: strip_def dropWhile_none)

lemma in_MLB09_not_space: "in_MLB09 c \<Longrightarrow> \<not> py_isspace c"
  by (auto simp: in_MLB09_def ascii_digit_def py_isspace_def)

lemma normalize_ad_id_chars:
  assumes "normalize_ad_id x = Some y"
  shows "\<forall>c\<in>set y. in_MLB09 c" and "match_MLB_digits y"
  using assms
  by (auto simp: normalize_ad_id_def Let_def in_MLB09_def split: if_splits)

lemma normalize_ad_id_fixed:
  assumes chars: "\<forall>c\<in>set y. in_MLB09 c" and m: "match_MLB_digits y"
  shows "normalize_ad_id y = Some y"
proof -
  have s: "strip y = y"
    using chars by (simp add: strip_no_space in_MLB09_not_space)
  have f: "filter in_MLB09 y = y"
    using chars by (simp add: filter_id_conv)
  have p: "startswith y ''MLB''"
    using m by (simp add: match_MLB_digits_def Let_def startswith_def numeral_3_eq_3)
  show ?thesis
    using m by (simp add: normalize_ad_id_def s f p)
qed

lemma normalize_ad_id_again: "normalize_ad_id x = Some y \<Longrightarrow> normalize_ad_id y = Some y"
  by (rule normalize_ad_id_fixed) (rule normalize_ad_id_chars, assumption)+

text \<open>
  Claim C8. \<open>normalize_ad_id\<close> is idempotent on its successes: when it returns a string
  for \<open>x\<close>, it returns that same string when applied to it.
\<close>

theorem normalize_ad_id_idempotent:
  "normalize_ad_id x = Some y \<Longrightarrow> normalize_ad_id y = normalize_ad_id x"
  by (simp add: normalize_ad_id_again)

theorem normalize_ad_id_idempotent_witness:
  "normalize_ad_id '' mlb-123 '' = Some ''MLB123'' \<and>
   normalize_ad_id ''MLB123'' = normalize_ad_id '' mlb-123 ''"
proof -
  have h: "normalize_ad_id '' mlb-123 '' = Some ''MLB123''"
    by code_simp
  from normalize_ad_id_idempotent [OF h] h show ?thesis
    by simp
qed

text \<open>
  Claim C9. When \<open>normalize_zip_code\<close> returns a string, it has exactly 8 characters,
  each a decimal digit \<open>0\<close> to \<open>9\<close>; \<open>"01.001-000"\<close> gives \<open>"01001000"\<close>, and the seven
  digits \<open>"0100100"\<close> give \<open>None\<close>.
\<close>

theorem normalize_zip_code_shape:
  "(normalize_zip_code z = Some r \<longrightarrow> length r = 8 \<and> list_all ascii_digit r) \<and>
   normalize_zip_code ''01.001-000'' = Some ''01001000'' \<and>
   normalize_zip_code ''0100100'' = None"
proof (intro conjI impI)
  assume "normalize_zip_code z = Some r"
  then show "length r = 8" "list_all ascii_digit r"
    by (auto simp: normalize_zip_code_def Let_def list_all_iff split: if_splits)
next
  show "normalize_zip_code ''01.001-000'' = Some ''01001000''"
    by code_simp
  show "normalize_zip_code ''0100100'' = None"
    by code_simp
qed

theorem normalize_zip_code_shape_witness:
  "normalize_zip_code '' 01001-000'' = Some ''01001000'' \<and> length ''01001000'' = 8 \<and>
   list_all ascii_digit ''01001000''"
proof -
  have h: "normalize_zip_code '' 01001-000'' = Some ''01001000''"
    by code_simp
  from normalize_zip_code_shape [of "'' 01001-000''" "''01001000''"] h show ?thesis
    by blast
qed

section \<open>Properties of the shipping fetcher\<close>

lemma fetch_Raised:
  "session (shipping_url ad_id zip_code) = Raised e \<Longrightarrow>
   fetch_shipping_cost float_of session ad_id zip_code = on_exception ad_id e"
  by (simp add: fetch_shipping_cost_def)

lemma fetch_Body:
  "session (shipping_url ad_id zip_code) = Body data \<Longrightarrow>
   fetch_shipping_cost float_of session ad_id zip_code =
     (case read_options float_of ad_id data of Inr outcome \<Rightarrow> outcome | Inl e \<Rightarrow> on_exception ad_id e)"
  by (simp add: fetch_shipping_cost_def)

lemma read_options_no_key:
  "''options'' \<notin> fst ` set kvs \<Longrightarrow>
   read_options float_of ad_id (JObject kvs) = Inr (ad_id, None, Some ''No shipping options available'')"
  by (simp add: read_options_def then_do_def)

lemma read_options_array:
  assumes "map_of kvs ''options'' = Some (JArray xs)"
  shows "read_options float_of ad_id (JObject kvs) =
     (if 2 < length xs then
        then_do (then_do (py_getitem_str (xs ! 2) ''list_cost'') float_of)
          (\<lambda>cost. Inr (ad_id, Some cost, None))
      else Inr (ad_id, None, Some ''No shipping options available''))"
proof -
  have "(''options'', JArray xs) \<in> set kvs"
    using assms by (rule map_of_SomeD)
  then have k: "''options'' \<in> fst ` set kvs"
    by force
  show ?thesis
    using assms k by (simp add: read_options_def then_do_def split: sum.splits)
qed

lemma on_exception_failure: "failure_for ad_id (on_exception ad_id e)"
  by (cases e) (simp_all add: failure_for_def)

lemma read_options_outcome:
  "read_options float_of ad_id data = Inr r \<Longrightarrow> success_for ad_id r \<or> failure_for ad_id r"
  by (auto simp: read_options_def then_do_def success_for_def failure_for_def
      split: sum.splits if_splits)




text \<open>
  Claim C1, as the code has it. Let the request succeed and the parsed body be an object
  whose \<open>options\<close> is an array. With 2 elements or fewer the result is the failure
  \<open>No shipping options available\<close>. With more than 2, the result is the success with the
  cost \<open>float\<close> gives for the \<open>list_cost\<close> of the element at index 2 when that element is an
  object with such a field and \<open>float\<close> converts it; when reading the field or converting
  it raises, the result is the failure of the \<open>except\<close> clause for that exception.
\<close>

theorem fetch_options_array:
  assumes "session (shipping_url ad_id zip_code) = Body (JObject kvs)"
    and "map_of kvs ''options'' = Some (JArray xs)"
  shows "(length xs \<le> 2 \<longrightarrow>
            fetch_shipping_cost float_of session ad_id zip_code =
              (ad_id, None, Some ''No shipping options available'')) \<and>
         (2 < length xs \<longrightarrow> xs ! 2 = JObject attrs \<longrightarrow> map_of attrs ''list_cost'' = Some list_cost \<longrightarrow>
            float_of list_cost = Inr cost \<longrightarrow>
            fetch_shipping_cost float_of session ad_id zip_code = (ad_id, Some cost, None)) \<and>
         (2 < length xs \<longrightarrow> then_do (py_getitem_str (xs ! 2) ''list_cost'') float_of = Inl error \<longrightarrow>
            fetch_shipping_cost float_of session ad_id zip_code = on_exception ad_id error)"
  using assms
  by (simp add: fetch_Body read_options_array then_do_def split: sum.splits)

theorem fetch_options_array_witness:
  "fetch_shipping_cost float_of_int
     (answering (Body (JObject [(''options'',
        JArray [JObject [(''list_cost'', JInt 1)], JObject [(''list_cost'', JInt 2)],
                JObject [(''list_cost'', JInt 3)]])])))
     ''MLB1'' ''01001000'' = (''MLB1'', Some 3, None) \<and>
   fetch_shipping_cost float_of_int
     (answering (Body (JObject [(''options'',
        JArray [JObject [(''list_cost'', JInt 1)], JObject [(''list_cost'', JInt 2)]])])))
     ''MLB1'' ''01001000'' = (''MLB1'', None, Some ''No shipping options available'')"
proof -
  let ?three = "[JObject [(''list_cost'', JInt 1)], JObject [(''list_cost'', JInt 2)],
                 JObject [(''list_cost'', JInt 3 :: int json)]]"
  let ?two = "[JObject [(''list_cost'', JInt 1)], JObject [(''list_cost'', JInt 2 :: int json)]]"
  from fetch_options_array [where session = "answering (Body (JObject [(''options'', JArray ?three)]))"
      and ad_id = "''MLB1''" and zip_code = "''01001000''" and kvs = "[(''options'', JArray ?three)]"
      and xs = ?three and float_of = float_of_int
      and attrs = "[(''list_cost'', JInt 3)]" and list_cost = "JInt 3" and cost = 3]
    fetch_options_array [where session = "answering (Body (JObject [(''options'', JArray ?two)]))"
      and ad_id = "''MLB1''" and zip_code = "''01001000''" and kvs = "[(''options'', JArray ?two)]"
      and xs = ?two and float_of = float_of_int]
  show ?thesis
    by (simp add: answering_def)
qed

text \<open>
  Claim C1 as the specification states it fails where the third option has no
  \<open>list_cost\<close>: the array has more than 2 elements, and the result is a failure.
\<close>

theorem fetch_options_array_counterexample:
  "fetch_shipping_cost float_of_int
     (answering (Body (JObject [(''options'',
        JArray [JObject [(''name'', JString ''a'')], JObject [(''name'', JString ''b'')],
                JObject [(''name'', JString ''c'')]])])))
     ''MLB1'' ''01001000''
   = (''MLB1'', None,
      Some (''Unexpected error: '' @ quoted ''list_cost''
         @ ''. Please contact the developer with this error message.''))"
  by code_simp

text \<open>
  Claim C4. An HTTP error response reaches the \<open>except\<close> clauses as the
  \<open>ClientResponseError\<close> that \<open>raise_for_status\<close> raises, with the status code. The
  status 500 gives the server error, 404 the item not found, 429 the too many requests,
  and every other status the unexpected HTTP error, whose text carries the status.
\<close>

theorem fetch_http_error:
  assumes "session (shipping_url ad_id zip_code) = Raised (ClientResponseError status message)"
  shows "fetch_shipping_cost float_of session ad_id zip_code =
     (ad_id, None, Some
       (if status = 500 then
          ''Server error (500). The Mercado Livre API is experiencing issues. Please try again later.''
        else if status = 404 then ''Item not found (404). Verify the ad ID and try again.''
        else if status = 429 then ''Too many requests (429). Please wait a few minutes and try again.''
        else ''Unexpected HTTP error ('' @ py_str_int status
           @ ''). Contact the developer if this persists.''))"
  using assms by (simp add: fetch_Raised)

theorem fetch_http_error_witness:
  "fetch_shipping_cost float_of_int (answering (Raised (ClientResponseError 404 ''Not Found'')))
     ''MLB1'' ''01001000''
     = (''MLB1'', None, Some ''Item not found (404). Verify the ad ID and try again.'') \<and>
   fetch_shipping_cost float_of_int (answering (Raised (ClientResponseError 503 ''Unavailable'')))
     ''MLB1'' ''01001000''
     = (''MLB1'', None, Some ''Unexpected HTTP error (503). Contact the developer if this persists.'')"
proof -
  have d: "py_str_int 503 = ''503''"
    by code_simp
  from fetch_http_error [where session = "answering (Raised (ClientResponseError 404 ''Not Found''))"
      and ad_id = "''MLB1''" and zip_code = "''01001000''" and status = 404 and message = "''Not Found''"
      and float_of = float_of_int]
    fetch_http_error [where session = "answering (Raised (ClientResponseError 503 ''Unavailable''))"
      and ad_id = "''MLB1''" and zip_code = "''01001000''" and status = 503 and message = "''Unavailable''"
      and float_of = float_of_int] d
  show ?thesis
    by (simp add: answering_def)
qed

text \<open>
  Claim C5. Whatever the request comes to, \<open>fetch_shipping_cost\<close> returns one result for
  its \<open>ad_id\<close>, a success or a failure. Every exception raised by the request, and every
  exception raised while the body is read, is turned into a failure with a reason.
\<close>

theorem fetch_total:
  "(success_for ad_id (fetch_shipping_cost float_of session ad_id zip_code) \<or>
    failure_for ad_id (fetch_shipping_cost float_of session ad_id zip_code)) \<and>
   (\<forall>e. session (shipping_url ad_id zip_code) = Raised e \<longrightarrow>
      failure_for ad_id (fetch_shipping_cost float_of session ad_id zip_code)) \<and>
   (\<forall>data e. session (shipping_url ad_id zip_code) = Body data \<longrightarrow>
      read_options float_of ad_id data = Inl e \<longrightarrow>
      failure_for ad_id (fetch_shipping_cost float_of session ad_id zip_code))"
proof (intro conjI allI impI)
  show "success_for ad_id (fetch_shipping_cost float_of session ad_id zip_code) \<or>
    failure_for ad_id (fetch_shipping_cost float_of session ad_id zip_code)"
  proof (cases "session (shipping_url ad_id zip_code)")
    case (Raised e)
    then show ?thesis
      by (simp add: fetch_Raised on_exception_failure)
  next
    case (Body data)
    then show ?thesis
      by (cases "read_options float_of ad_id data")
        (simp_all add: fetch_Body on_exception_failure read_options_outcome)
  qed
next
  fix e
  assume "session (shipping_url ad_id zip_code) = Raised e"
  then show "failure_for ad_id (fetch_shipping_cost float_of session ad_id zip_code)"
    by (simp add: fetch_Raised on_exception_failure)
next
  fix data e
  assume "session (shipping_url ad_id zip_code) = Body data"
    and "read_options float_of ad_id data = Inl e"
  then show "failure_for ad_id (fetch_shipping_cost float_of session ad_id zip_code)"
    by (simp add: fetch_Body on_exception_failure)
qed

theorem fetch_total_witness:
  "failure_for ''MLB1'' (fetch_shipping_cost float_of_int
      (answering (Raised (OtherException ''TimeoutError'' ''''))) ''MLB1'' ''01001000'') \<and>
   read_options float_of_int ''MLB1'' JNull
     = Inl (OtherException ''TypeError'' (''argument of type '' @ quoted ''NoneType'' @ '' is not iterable'')) \<and>
   failure_for ''MLB1'' (fetch_shipping_cost float_of_int (answering (Body JNull)) ''MLB1'' ''01001000'')"
proof -
  have r: "read_options float_of_int ''MLB1'' JNull
     = Inl (OtherException ''TypeError'' (''argument of type '' @ quoted ''NoneType'' @ '' is not iterable''))"
    by (simp add: read_options_def then_do_def type_error_def)
  from fetch_total [of "''MLB1''" float_of_int
      "answering (Raised (OtherException ''TimeoutError'' ''''))" "''01001000''"]
    fetch_total [of "''MLB1''" float_of_int "answering (Body JNull)" "''01001000''"] r
  show ?thesis
    by (simp add: answering_def)
qed

text \<open>
  Claim C10, as the code has it. When the request succeeds and the parsed body is an
  object with no \<open>options\<close> key, the result is the failure \<open>No shipping options available\<close>;
  so it is for every parsed body in which the test \<open>"options" in data\<close> finds nothing.
  When the test itself raises, as it does on \<open>None\<close>, a number or a boolean, the result is
  the failure of the \<open>except\<close> clause for that exception.
\<close>

theorem fetch_missing_options:
  assumes "session (shipping_url ad_id zip_code) = Body data"
  shows "(data = JObject kvs \<longrightarrow> ''options'' \<notin> fst ` set kvs \<longrightarrow>
            fetch_shipping_cost float_of session ad_id zip_code =
              (ad_id, None, Some ''No shipping options available'')) \<and>
         (py_contains ''options'' data = Inr False \<longrightarrow>
            fetch_shipping_cost float_of session ad_id zip_code =
              (ad_id, None, Some ''No shipping options available'')) \<and>
         (py_contains ''options'' data = Inl error \<longrightarrow>
            fetch_shipping_cost float_of session ad_id zip_code = on_exception ad_id error)"
  using assms by (auto simp: fetch_Body read_options_no_key read_options_def then_do_def)

theorem fetch_missing_options_witness:
  "''options'' \<notin> fst ` set [(''message'', JString ''x'' :: int json)] \<and>
   fetch_shipping_cost float_of_int (answering (Body (JObject [(''message'', JString ''x'')])))
     ''MLB1'' ''01001000'' = (''MLB1'', None, Some ''No shipping options available'') \<and>
   py_contains ''options'' (JNull :: int json)
     = Inl (OtherException ''TypeError'' (''argument of type '' @ quoted ''NoneType'' @ '' is not iterable'')) \<and>
   fetch_shipping_cost float_of_int (answering (Body JNull)) ''MLB1'' ''01001000''
     = on_exception ''MLB1''
         (OtherException ''TypeError'' (''argument of type '' @ quoted ''NoneType'' @ '' is not iterable''))"
proof -
  have k: "''options'' \<notin> fst ` set [(''message'', JString ''x'' :: int json)]"
    by simp
  have c: "py_contains ''options'' (JNull :: int json)
     = Inl (OtherException ''TypeError'' (''argument of type '' @ quoted ''NoneType'' @ '' is not iterable''))"
    by (simp add: type_error_def)
  from fetch_missing_options [where session = "answering (Body (JObject [(''message'', JString ''x'')]))"
      and ad_id = "''MLB1''" and zip_code = "''01001000''" and data = "JObject [(''message'', JString ''x'')]"
      and kvs = "[(''message'', JString ''x'')]" and float_of = float_of_int]
    fetch_missing_options [where session = "answering (Body JNull)"
      and ad_id = "''MLB1''" and zip_code = "''01001000''" and data = JNull and float_of = float_of_int
      and error = "OtherException ''TypeError'' (''argument of type '' @ quoted ''NoneType'' @ '' is not iterable'')"]
    k c
  show ?thesis
    by (simp add: answering_def)
qed

text \<open>
  Claim C10 as the specification states it fails where the body parses to \<open>None\<close> (the
  JSON text \<open>null\<close>): the body has no \<open>options\<close> key, and the result is the failure of the
  last \<open>except\<close> clause, not \<open>No shipping options available\<close>.
\<close>

theorem fetch_missing_options_counterexample:
  "map_option (take 18)
     (snd (snd (fetch_shipping_cost float_of_int (answering (Body JNull)) ''MLB1'' ''01001000'')))
     = Some ''Unexpected error: '' \<and>
   fetch_shipping_cost float_of_int (answering (Body JNull)) ''MLB1'' ''01001000''
     \<noteq> (''MLB1'', None, Some ''No shipping options available'')"
  by code_simp

section \<open>Properties of the batch coordinator\<close>

lemma first_index_Cons:
  "first_index (x # xs) a = (if a = x then 0 else Suc (first_index xs a))"
  by (auto simp: first_index_def)

lemma fromkeys_shape:
  "\<exists>T. fromkeys seen xs = seen @ T \<and> distinct T \<and> set T = set xs - set seen \<and>
       sorted_wrt (\<lambda>a b. first_index xs a < first_index xs b) T"
proof (induction xs arbitrary: seen)
  case Nil
  then show ?case by simp
next
  case (Cons x xs)
  show ?case
  proof (cases "x \<in> set seen")
    case True
    from Cons.IH [of seen] obtain T where T: "fromkeys seen xs = seen @ T" "distinct T"
      "set T = set xs - set seen" "sorted_wrt (\<lambda>a b. first_index xs a < first_index xs b) T"
      by blast
    have "sorted_wrt (\<lambda>a b. first_index (x # xs) a < first_index (x # xs) b) T"
      using T(4) T(3) True
      by (rule_tac sorted_wrt_mono_rel [where P = "\<lambda>a b. first_index xs a < first_index xs b"])
         (auto simp: first_index_Cons)
    with T True show ?thesis
      by (intro exI [of _ T]) auto
  next
    case False
    from Cons.IH [of "seen @ [x]"] obtain T where T: "fromkeys (seen @ [x]) xs = (seen @ [x]) @ T"
      "distinct T" "set T = set xs - set (seen @ [x])"
      "sorted_wrt (\<lambda>a b. first_index xs a < first_index xs b) T"
      by blast
    have s: "sorted_wrt (\<lambda>a b. first_index (x # xs) a < first_index (x # xs) b) T"
      using T(4) T(3)
      by (rule_tac sorted_wrt_mono_rel [where P = "\<lambda>a b. first_index xs a < first_index xs b"])
         (auto simp: first_index_Cons)
    have h: "\<forall>y\<in>set T. first_index (x # xs) x < first_index (x # xs) y"
      using T(3) by (auto simp: first_index_Cons)
    show ?thesis
      using T False s h by (intro exI [of _ "x # T"]) auto
  qed
qed

lemma dict_fromkeys_order: "first_occurrence_order xs (dict_fromkeys xs)"
  using fromkeys_shape [of "[]" xs]
  by (auto simp: first_occurrence_order_def dict_fromkeys_def)

lemma comprehension_filter_map:
  "[f i. i \<leftarrow> xs, f i \<noteq> []] = filter (\<lambda>t. t \<noteq> []) (map f xs)"
  by (induction xs) auto

lemma id_list_of_tokens: "id_list_of blob = dict_fromkeys (raw_tokens blob)"
  by (simp add: id_list_of_def raw_tokens_def comprehension_filter_map)

lemma id_list_of_order: "first_occurrence_order (raw_tokens blob) (id_list_of blob)"
  by (simp add: id_list_of_tokens dict_fromkeys_order)

lemma length_id_list_of: "length (id_list_of blob) = card (set (raw_tokens blob))"
  using id_list_of_order [of blob]
  by (auto simp: first_occurrence_order_def dest: distinct_card)

lemma normalize_ad_id_nonempty: "normalize_ad_id x = Some y \<Longrightarrow> y \<noteq> []"
  by (auto dest!: normalize_ad_id_chars(2) simp: match_MLB_digits_def Let_def)

lemma truthy_normalize: "truthy (normalize_ad_id x) \<longleftrightarrow> normalize_ad_id x \<noteq> None"
  by (auto simp: truthy_def dest: normalize_ad_id_nonempty split: option.splits)

lemma inserted_lines_append: "inserted_lines (xs @ ys) = inserted_lines xs @ inserted_lines ys"
  by (induction xs rule: inserted_lines.induct) auto

lemma show_entry_invalid:
  "normalize_ad_id raw_id = None \<Longrightarrow>
   show_entry format_2f result_dict (raw_id, normalize_ad_id raw_id) = invalid_marker raw_id"
  by (simp add: show_entry_def invalid_marker_def truthy_def)

lemma show_entry_line:
  "\<exists>line. inserted_lines (show_entry format_2f result_dict (raw_id, normalize_ad_id raw_id)) = [line]
      \<and> entry_for raw_id line"
proof (cases "normalize_ad_id raw_id")
  case None
  with show_entry_invalid [OF None, of format_2f result_dict] show ?thesis
    by (simp add: invalid_marker_def entry_for_def)
next
  case (Some n)
  then have "n \<noteq> []"
    by (rule normalize_ad_id_nonempty)
  with Some show ?thesis
    by (auto simp: show_entry_def truthy_def entry_for_def startswith_def split: option.splits prod.splits)
qed

lemma inserted_lines_entries:
  "\<exists>ls. inserted_lines (concat (map (show_entry format_2f result_dict) (normalized_ids_of ids))) = ls
     \<and> length ls = length ids \<and> (\<forall>i<length ids. entry_for (ids ! i) (ls ! i))"
proof (induction ids)
  case Nil
  then show ?case by (simp add: normalized_ids_of_def)
next
  case (Cons r ids)
  then obtain ls where ls:
    "inserted_lines (concat (map (show_entry format_2f result_dict) (normalized_ids_of ids))) = ls"
    "length ls = length ids" "\<forall>i<length ids. entry_for (ids ! i) (ls ! i)"
    by blast
  obtain line where line:
    "inserted_lines (show_entry format_2f result_dict (r, normalize_ad_id r)) = [line]"
    "entry_for r line"
    using show_entry_line by blast
  have "inserted_lines (concat (map (show_entry format_2f result_dict) (normalized_ids_of (r # ids))))
      = line # ls"
    using ls(1) line(1) by (simp add: normalized_ids_of_def inserted_lines_append)
  moreover have "\<forall>i<length (r # ids). entry_for ((r # ids) ! i) ((line # ls) ! i)"
    using ls(3) line(2) by (auto simp: nth_Cons split: nat.splits)
  ultimately show ?case
    using ls(2) by simp
qed

lemma process_events:
  "events (process_ad_ids float_of format_2f net blob zip_code) =
     concat (map (show_entry format_2f
         (result_dict_of (results (process_ad_ids float_of format_2f net blob zip_code))))
       (normalized_ids_of (id_list_of blob)))"
  by (simp add: process_ad_ids_def Let_def normalized_ids_of_def)

lemma valid_ids_of_normalized:
  "valid_ids_of (normalized_ids_of ids) =
     List.map_filter (\<lambda>r. map_option (Pair r) (normalize_ad_id r)) ids"
  by (induction ids)
     (auto simp: valid_ids_of_def normalized_ids_of_def truthy_def
        dest: normalize_ad_id_nonempty split: option.splits)

lemma process_fetch_calls:
  "fetch_calls (process_ad_ids float_of format_2f net blob zip_code) =
     map (\<lambda>n. (n, zip_code)) (List.map_filter normalize_ad_id (id_list_of blob))"
proof -
  have "[(n, zip_code). (r, n) \<leftarrow> List.map_filter (\<lambda>r. map_option (Pair r) (normalize_ad_id r)) ids]
      = map (\<lambda>n. (n, zip_code)) (List.map_filter normalize_ad_id ids)" for ids
    by (induction ids) (auto split: option.splits)
  then show ?thesis
    by (simp add: process_ad_ids_def Let_def valid_ids_of_normalized)
qed


lemma length_map_filter: "length (List.map_filter f xs) = length (filter (\<lambda>x. f x \<noteq> None) xs)"
  by (induction xs) (auto split: option.splits)

lemma set_map_filter: "set (List.map_filter f xs) = {y. \<exists>x\<in>set xs. f x = Some y}"
  by (induction xs) (auto split: option.splits)


lemma events_of_token:
  assumes "raw_id \<in> set ids"
  shows "\<exists>before after. concat (map (show_entry format_2f result_dict) (normalized_ids_of ids))
      = before @ show_entry format_2f result_dict (raw_id, normalize_ad_id raw_id) @ after"
proof -
  from assms obtain pre post where "ids = pre @ raw_id # post"
    by (auto dest: split_list)
  then show ?thesis
    by (auto simp: normalized_ids_of_def)
qed

lemma single_token_valid:
  assumes "id_list_of blob = [r]" and "normalize_ad_id r = Some n"
  shows "fetch_calls (process_ad_ids float_of format_2f net blob zip_code) = [(n, zip_code)]"
    and "map (take (length n + 2)) (inserted_lines (events (process_ad_ids float_of format_2f net blob zip_code)))
           = [n @ '': '']"
proof -
  let ?b = "process_ad_ids float_of format_2f net blob zip_code"
  show "fetch_calls ?b = [(n, zip_code)]"
    using assms by (simp add: process_fetch_calls)
  obtain line where line:
    "inserted_lines (show_entry format_2f (result_dict_of (results ?b)) (r, normalize_ad_id r)) = [line]"
    "entry_for r line"
    using show_entry_line by blast
  have "inserted_lines (events ?b) = [line]"
    using line(1) assms(1)
    by (simp add: process_events [of float_of format_2f net blob zip_code] normalized_ids_of_def)
  moreover have "take (length n + 2) line = n @ '': ''"
    using line(2) assms(2) by (simp add: entry_for_def startswith_def)
  ultimately show "map (take (length n + 2)) (inserted_lines (events ?b)) = [n @ '': '']"
    by simp
qed

lemma single_token_invalid:
  assumes "id_list_of blob = [r]" and "normalize_ad_id r = None"
  shows "fetch_calls (process_ad_ids float_of format_2f net blob zip_code) = []"
    and "events (process_ad_ids float_of format_2f net blob zip_code) = invalid_marker r"
proof -
  show "fetch_calls (process_ad_ids float_of format_2f net blob zip_code) = []"
    using assms by (simp add: process_fetch_calls)
  show "events (process_ad_ids float_of format_2f net blob zip_code) = invalid_marker r"
    using assms show_entry_invalid [OF assms(2)]
    by (simp add: process_events [of float_of format_2f net blob zip_code] normalized_ids_of_def)
qed

lemma map_filter_removeAll:
  "f x = None \<Longrightarrow> List.map_filter f xs = List.map_filter f (removeAll x xs)"
  by (induction xs) (auto split: option.splits)

text \<open>
  Claim C2. The tokens of the batch, \<open>id_list_of blob\<close>, are the distinct trimmed,
  non-empty tokens of the blob in the order of their first occurrence. The lines inserted
  in the result text are as many as those tokens, and the line at position \<open>i\<close> is the
  entry of the token at position \<open>i\<close>, whatever the fetches come to (for every \<open>net\<close>).
  The blob \<open>"MLB1,MLB1,MLB2"\<close> gives two lines, the one of MLB1, then the one of MLB2.
\<close>

theorem batch_entries_in_order:
  "first_occurrence_order (raw_tokens blob) (id_list_of blob) \<and>
   length (inserted_lines (events (process_ad_ids float_of format_2f net blob zip_code)))
     = card (set (raw_tokens blob)) \<and>
   (\<forall>i<length (id_list_of blob).
      entry_for (id_list_of blob ! i)
        (inserted_lines (events (process_ad_ids float_of format_2f net blob zip_code)) ! i)) \<and>
   map (take 6) (inserted_lines (events (process_ad_ids float_of format_2f net ''MLB1,MLB1,MLB2'' zip_code)))
     = [''MLB1: '', ''MLB2: '']"
proof (intro conjI)
  let ?b = "process_ad_ids float_of format_2f net blob zip_code"
  obtain ls where ls: "inserted_lines (events ?b) = ls" "length ls = length (id_list_of blob)"
    "\<forall>i<length (id_list_of blob). entry_for (id_list_of blob ! i) (ls ! i)"
    using inserted_lines_entries [of format_2f "result_dict_of (results ?b)" "id_list_of blob"]
    by (auto simp: process_events [symmetric])
  show "first_occurrence_order (raw_tokens blob) (id_list_of blob)"
    by (rule id_list_of_order)
  show "length (inserted_lines (events ?b)) = card (set (raw_tokens blob))"
    using ls by (simp add: length_id_list_of)
  show "\<forall>i<length (id_list_of blob). entry_for (id_list_of blob ! i) (inserted_lines (events ?b) ! i)"
    using ls by simp
next
  let ?c = "process_ad_ids float_of format_2f net ''MLB1,MLB1,MLB2'' zip_code"
  have ids: "id_list_of ''MLB1,MLB1,MLB2'' = [''MLB1'', ''MLB2'']"
    by code_simp
  have n1: "normalize_ad_id ''MLB1'' = Some ''MLB1''" and n2: "normalize_ad_id ''MLB2'' = Some ''MLB2''"
    by code_simp+
  obtain ls where ls: "inserted_lines (events ?c) = ls" "length ls = 2"
    "\<forall>i<2. entry_for ([''MLB1'', ''MLB2''] ! i) (ls ! i)"
    using inserted_lines_entries [of format_2f "result_dict_of (results ?c)" "[''MLB1'', ''MLB2'']"]
    by (auto simp: process_events [of float_of format_2f net "''MLB1,MLB1,MLB2''" zip_code] ids)
  from ls(2) obtain a b where ab: "ls = [a, b]"
    by (cases ls; cases "tl ls") auto
  from ls(3) have "entry_for ''MLB1'' (ls ! 0)" "entry_for ''MLB2'' (ls ! 1)"
    by (auto simp: numeral_2_eq_2 less_Suc_eq)
  then have "take 6 a = ''MLB1: ''" "take 6 b = ''MLB2: ''"
    by (simp_all add: ab entry_for_def n1 n2 startswith_def eval_nat_numeral)
  then show "map (take 6) (inserted_lines (events ?c)) = [''MLB1: '', ''MLB2: '']"
    by (simp add: ls(1) ab)
qed

theorem batch_entries_in_order_witness:
  "id_list_of (''MLB2'' @ [CHR 0x0A] @ ''MLB1'') = [''MLB2'', ''MLB1''] \<and>
   entry_for ''MLB2'' (inserted_lines (events (process_ad_ids float_of_int format_2f_int
      (net_answering (Raised (ClientConnectionError ''down'')))
      (''MLB2'' @ [CHR 0x0A] @ ''MLB1'') ''01001000'')) ! 0) \<and>
   entry_for ''MLB1'' (inserted_lines (events (process_ad_ids float_of_int format_2f_int
      (net_answering (Raised (ClientConnectionError ''down'')))
      (''MLB2'' @ [CHR 0x0A] @ ''MLB1'') ''01001000'')) ! 1)"
proof -
  let ?blob = "''MLB2'' @ [CHR 0x0A] @ ''MLB1''"
  let ?ls = "inserted_lines (events (process_ad_ids float_of_int format_2f_int
      (net_answering (Raised (ClientConnectionError ''down''))) ?blob ''01001000''))"
  have ids: "id_list_of ?blob = [''MLB2'', ''MLB1'']"
    by code_simp
  from batch_entries_in_order [of ?blob float_of_int format_2f_int
      "net_answering (Raised (ClientConnectionError ''down''))" "''01001000''"]
  have all: "\<forall>i<length (id_list_of ?blob). entry_for (id_list_of ?blob ! i) (?ls ! i)"
    by blast
  have len: "0 < length (id_list_of ?blob)" "1 < length (id_list_of ?blob)"
    unfolding ids by simp_all
  have at: "id_list_of ?blob ! 0 = ''MLB2''" "id_list_of ?blob ! 1 = ''MLB1''"
    unfolding ids by simp_all
  have "entry_for (id_list_of ?blob ! 0) (?ls ! 0)" "entry_for (id_list_of ?blob ! 1) (?ls ! 1)"
    using all len by blast+
  then have "entry_for ''MLB2'' (?ls ! 0)" "entry_for ''MLB1'' (?ls ! 1)"
    by (simp_all only: at)
  then show ?thesis
    using ids by blast
qed

text \<open>
  Claim C3, as the code has it. \<open>normalize_ad_id\<close> removes the lower-case letters of
  \<open>"abc123"\<close> and returns \<open>"MLB123"\<close>: the batch starts a fetch for MLB123 and inserts
  its line, not the line of an invalid token. \<open>"123"\<close> gives \<open>"MLB123"\<close> too and is
  fetched. A token whose cleaned form keeps a letter after the prefix, as \<open>"B123"\<close>
  (cleaned to \<open>"MLBB123"\<close>), is no ad ID: the batch starts no fetch and shows the
  invalid-input marker.
\<close>

theorem abc123_is_fetched:
  "normalize_ad_id ''abc123'' = Some ''MLB123'' \<and>
   fetch_calls (process_ad_ids float_of format_2f net ''abc123'' zip_code) = [(''MLB123'', zip_code)] \<and>
   map (take 8) (inserted_lines (events (process_ad_ids float_of format_2f net ''abc123'' zip_code)))
     = [''MLB123: ''] \<and>
   normalize_ad_id ''123'' = Some ''MLB123'' \<and>
   fetch_calls (process_ad_ids float_of format_2f net ''123'' zip_code) = [(''MLB123'', zip_code)] \<and>
   normalize_ad_id ''B123'' = None \<and>
   fetch_calls (process_ad_ids float_of format_2f net ''B123'' zip_code) = [] \<and>
   events (process_ad_ids float_of format_2f net ''B123'' zip_code) = invalid_marker ''B123''"
proof -
  have a: "id_list_of ''abc123'' = [''abc123'']" "normalize_ad_id ''abc123'' = Some ''MLB123''"
    by code_simp+
  have b: "id_list_of ''123'' = [''123'']" "normalize_ad_id ''123'' = Some ''MLB123''"
    by code_simp+
  have c: "id_list_of ''B123'' = [''B123'']" "normalize_ad_id ''B123'' = None"
    by code_simp+
  show ?thesis
    using single_token_valid [OF a, of float_of format_2f net zip_code]
      single_token_valid(1) [OF b, of float_of format_2f net zip_code]
      single_token_invalid [OF c, of float_of format_2f net zip_code] a(2) b(2) c(2)
    by (simp add: eval_nat_numeral)
qed

text \<open>
  Claim C3 as the specification states it fails at \<open>"abc123"\<close>: the token is
  normalized, and a fetch for it is started.
\<close>

theorem abc123_counterexample:
  "normalize_ad_id ''abc123'' = Some ''MLB123'' \<and>
   fetch_calls (process_ad_ids float_of_int format_2f_int
       (net_answering (Raised (ClientConnectionError ''down''))) ''abc123'' ''01001000'')
     = [(''MLB123'', ''01001000'')]"
  by code_simp




text \<open>
  Claim C7. For a token of the batch that fails normalization, no fetch is started: the
  fetches started are exactly those of the tokens that normalize, one for each in their
  order, and they are the same as for the batch's tokens without that token; none of
  them asks for the token, and the events at the window contain its invalid-input marker.
\<close>

theorem invalid_token_not_fetched:
  assumes "raw_id \<in> set (id_list_of blob)" and "normalize_ad_id raw_id = None"
  shows "fetch_calls (process_ad_ids float_of format_2f net blob zip_code)
       = map (\<lambda>n. (n, zip_code)) (List.map_filter normalize_ad_id (id_list_of blob)) \<and>
     List.map_filter normalize_ad_id (id_list_of blob)
       = List.map_filter normalize_ad_id (removeAll raw_id (id_list_of blob)) \<and>
     raw_id \<notin> fst ` set (fetch_calls (process_ad_ids float_of format_2f net blob zip_code)) \<and>
     length (fetch_calls (process_ad_ids float_of format_2f net blob zip_code))
       = length (filter (\<lambda>r. normalize_ad_id r \<noteq> None) (id_list_of blob)) \<and>
     (\<exists>before after. events (process_ad_ids float_of format_2f net blob zip_code)
        = before @ invalid_marker raw_id @ after)"
proof (intro conjI)
  let ?b = "process_ad_ids float_of format_2f net blob zip_code"
  show "fetch_calls ?b = map (\<lambda>n. (n, zip_code)) (List.map_filter normalize_ad_id (id_list_of blob))"
    by (rule process_fetch_calls)
  show "List.map_filter normalize_ad_id (id_list_of blob)
       = List.map_filter normalize_ad_id (removeAll raw_id (id_list_of blob))"
    using assms(2) by (rule map_filter_removeAll)
  show "raw_id \<notin> fst ` set (fetch_calls ?b)"
  proof
    assume "raw_id \<in> fst ` set (fetch_calls ?b)"
    then obtain r where "normalize_ad_id r = Some raw_id"
      by (auto simp: process_fetch_calls set_map_filter)
    then have "normalize_ad_id raw_id = Some raw_id"
      by (rule normalize_ad_id_again)
    with assms(2) show False by simp
  qed
  show "length (fetch_calls ?b) = length (filter (\<lambda>r. normalize_ad_id r \<noteq> None) (id_list_of blob))"
    by (simp add: process_fetch_calls length_map_filter)
  show "\<exists>before after. events ?b = before @ invalid_marker raw_id @ after"
    using events_of_token [OF assms(1), of format_2f "result_dict_of (results ?b)"]
      show_entry_invalid [OF assms(2), of format_2f "result_dict_of (results ?b)"]
    by (simp add: process_events [of float_of format_2f net blob zip_code])
qed

theorem invalid_token_not_fetched_witness:
  "''B12'' \<in> set (id_list_of ''B12,MLB1'') \<and> normalize_ad_id ''B12'' = None \<and>
   fetch_calls (process_ad_ids float_of_int format_2f_int
      (net_answering (Raised (ClientConnectionError ''down''))) ''B12,MLB1'' ''01001000'')
     = [(''MLB1'', ''01001000'')] \<and>
   ''B12'' \<notin> fst ` set (fetch_calls (process_ad_ids float_of_int format_2f_int
      (net_answering (Raised (ClientConnectionError ''down''))) ''B12,MLB1'' ''01001000'')) \<and>
   length (fetch_calls (process_ad_ids float_of_int format_2f_int
      (net_answering (Raised (ClientConnectionError ''down''))) ''B12,MLB1'' ''01001000'')) = 1"
proof -
  have ids: "id_list_of ''B12,MLB1'' = [''B12'', ''MLB1'']"
    by code_simp
  have n: "normalize_ad_id ''B12'' = None" "normalize_ad_id ''MLB1'' = Some ''MLB1''"
    by code_simp+
  have m: "''B12'' \<in> set (id_list_of ''B12,MLB1'')"
    by (simp add: ids)
  from invalid_token_not_fetched [OF m n(1), of float_of_int format_2f_int
      "net_answering (Raised (ClientConnectionError ''down''))" "''01001000''"] m n
  show ?thesis
    by (simp add: ids)
qed

end
